theory Spec2Isabelle
  imports Main "HOL-Library.Sublist"
begin

section \<open>maptype: folding TypeScript type declarations through a handler set\<close>

text \<open>
  The development embeds \<^verbatim>\<open>src/index.ts\<close> (with \<^verbatim>\<open>src/config.ts\<close> and the handler set of
  \<^verbatim>\<open>src/index.spec.ts\<close>). The TypeScript compiler is an external collaborator: a type
  handle is modelled by the answers the compiler gives to the queries that the source
  puts to it, a syntax node by its kind, its file and the children that
  \<^verbatim>\<open>ts.forEachChild\<close> enumerates.
\<close>

subsection \<open>Effects: exceptions and the console\<close>

text \<open>
  Two effects are visible in the source: \<^verbatim>\<open>throw\<close> and \<^verbatim>\<open>console.warn\<close>. A computation
  takes the lines written to the console so far and returns either the error thrown or a
  value, together with the console afterwards.

  \<^item> \<open>UnknownPrimitiveType\<close> is \<^verbatim>\<open>Error("Unknown primitive type")\<close>;
  \<^item> \<open>UnknownTypeWithFlags fs\<close> is
    \<^verbatim>\<open>Error("Unknown type with type flags: " + extractFlags(type.flags))\<close>;
  \<^item> \<open>TypeError\<close> is what the JavaScript run time raises when a property of
    \<^verbatim>\<open>undefined\<close> is read or \<^verbatim>\<open>undefined\<close> is destructured (the non-null assertions
    \<^verbatim>\<open>!\<close> of the source are erased by the compiler);
  \<^item> \<open>HandlerError m\<close> is anything a caller-supplied handler throws by itself.
\<close>

datatype error =
    UnknownPrimitiveType
  | UnknownTypeWithFlags "nat list"
  | TypeError
  | HandlerError string

type_synonym console = "string list"

type_synonym 'a comp = "console \<Rightarrow> (error + 'a) \<times> console"

definition succeed :: "'a \<Rightarrow> 'a comp" where
  "succeed x = (\<lambda>c. (Inr x, c))"

definition throw :: "error \<Rightarrow> 'a comp" where
  "throw e = (\<lambda>c. (Inl e, c))"

definition andThen :: "'a comp \<Rightarrow> ('a \<Rightarrow> 'b comp) \<Rightarrow> 'b comp" where
  "andThen m f = (\<lambda>c. case m c of (Inl e, c') \<Rightarrow> (Inl e, c') | (Inr x, c') \<Rightarrow> f x c')"

definition console_warn :: "string \<Rightarrow> unit comp" where
  "console_warn msg = (\<lambda>c. (Inr (), c @ [msg]))"

text \<open>
  A thunk \<^verbatim>\<open>() => R\<close> is a suspended computation: calling it runs it on the console
  of the moment of the call.
\<close>

type_synonym 'r thunk = "'r comp"

subsection \<open>Type handles\<close>

text \<open>
  A handle carries the answer to every query of \<^verbatim>\<open>processType\<close> and
  \<^verbatim>\<open>processObjectType\<close>: the predicates imported from \<^verbatim>\<open>./type\<close> (their file is not part
  of the sources at hand, so their results are inputs), the methods of \<^verbatim>\<open>ts.Type\<close> and the
  queries to the checker. A value that the source reads under a non-null assertion is an
  option; \<open>None\<close> is \<^verbatim>\<open>undefined\<close>. A field of type \<open>bool\<close> is the truth value of what
  the source reads: \<open>hasRestElement\<close> is that of \<^verbatim>\<open>type.hasRestElement\<close>, read on the handle
  itself, and \<open>questionToken\<close> that of \<^verbatim>\<open>questionToken\<close> on the value declaration of a
  property.
\<close>

datatype valueDecl = Declaration (questionToken: bool)

datatype ty = Type
  (isLiteralType: bool)
  (isPrimitiveType: bool)
  (typeToString: string)
  (isBasicObjectType: bool)
  (isRecordType: bool)
  (aliasTypeArguments: "ty list option")
  (isUnion: bool)
  (isIntersection: bool)
  (types: "ty list")
  (isTupleType: bool)
  (hasRestElement: bool)
  (typeArguments: "ty list option")
  (isArrayType: bool)
  (getNumberIndexType: "ty option")
  (isStringIndexedObjectType: bool)
  (getStringIndexType: "ty option")
  (isNumberIndexedType: bool)
  (isFunctionType: bool)
  (isObjectType: bool)
  (getPropertiesOfType: "symbol list")
  (isVoid: bool)
  (isAnyOrUnknown: bool)
  (flags: nat)
and symbol = Symbol
  (name: string)
  (valueDeclaration: "valueDecl option")
  (getTypeOfSymbolAtLocation: ty)


subsection \<open>The handler set\<close>

text \<open>
  \<^verbatim>\<open>TypeMap<R>\<close> of the source. A handler is a JavaScript function: it may call the
  thunks it is given (any number of times, or never), throw, or catch what a thunk throws, so
  it is a function from its arguments to a computation. The handlers \<^verbatim>\<open>undefined\<close>,
  \<^verbatim>\<open>function\<close>, \<^verbatim>\<open>record\<close>, \<^verbatim>\<open>union\<close> and the field \<^verbatim>\<open>value\<close> carry a prime,
  their names being taken in Isabelle.

  The literal handler is declared on \<^verbatim>\<open>boolean | number | string\<close>. Numbers are given
  as integers here; the engine never builds one.
\<close>

datatype literalValue = Boolean bool | Number int | String string

record 'r objectArg =
  properties :: "(string \<times> 'r thunk) list"
  optionalProperties :: "(string \<times> 'r thunk) list"

text \<open>\<^verbatim>\<open>return: null as any\<close> makes the return thunk an option.\<close>

record 'r functionArg =
  args :: "'r thunk list"
  return :: "'r thunk option"

record 'r recordArg =
  key :: "'r thunk"
  value' :: "'r thunk"

record 'r TypeMap =
  literal :: "literalValue \<Rightarrow> 'r comp"
  void :: "'r comp"
  string :: "'r comp"
  number :: "'r comp"
  boolean :: "'r comp"
  null :: "'r comp"
  undefined' :: "'r comp"
  any :: "'r comp"
  unknown :: "'r comp"
  emptyObject :: "'r comp"
  stringIndexObject :: "'r thunk \<Rightarrow> 'r comp"
  numberIndexObject :: "'r thunk \<Rightarrow> 'r comp"
  object :: "'r objectArg \<Rightarrow> 'r comp"
  function' :: "'r functionArg \<Rightarrow> 'r comp"
  record' :: "'r recordArg \<Rightarrow> 'r comp"
  array :: "'r thunk \<Rightarrow> 'r comp"
  union' :: "'r thunk list \<Rightarrow> 'r comp"
  intersection :: "'r thunk list \<Rightarrow> 'r comp"
  tuple :: "'r thunk list \<Rightarrow> 'r comp"

subsection \<open>Flag decomposition\<close>

text \<open>
  Modelled from the spec: the body of \<^verbatim>\<open>extractFlags\<close>, which lives in \<^verbatim>\<open>src/flags.ts\<close>, a
  file that is not among the sources. \<open>flagsFrom weight n\<close> lists the bits of \<open>n\<close>, each
  multiplied by \<open>weight\<close>, the highest first.
\<close>

fun flagsFrom :: "nat \<Rightarrow> nat \<Rightarrow> nat list" where
  "flagsFrom weight n =
     (if n = 0 then []
      else flagsFrom (2 * weight) (n div 2) @ (if odd n then [weight] else []))"

text \<open>
  Modelled from the spec: \<^verbatim>\<open>extractFlags\<close> of \<^verbatim>\<open>src/flags.ts\<close>, missing from the sources.
  Section 4.1 of the specification: the mask is decomposed into distinct powers of two,
  from the highest bit to the lowest, whose sum is the mask; \<^verbatim>\<open>extractFlags(0) = []\<close>. The
  test \<^verbatim>\<open>gets binary flags\<close> of \<^verbatim>\<open>src/index.spec.ts\<close> fixes the same values
  (\<^verbatim>\<open>extractFlags(10) = [8, 2]\<close>).
\<close>

definition extractFlags :: "nat \<Rightarrow> nat list" where
  "extractFlags n = flagsFrom 1 n"

subsection \<open>The fold: \<^verbatim>\<open>processType\<close>, \<^verbatim>\<open>processObjectType\<close>, \<^verbatim>\<open>processProperty\<close>\<close>

text \<open>
  The two filters of \<^verbatim>\<open>processObjectType\<close> (the constants \<^verbatim>\<open>requiredProperties\<close> and
  \<^verbatim>\<open>optionalProperties\<close> of the source; the second carries a prime, its name being the
  one of the handler's argument field). Both read
  \<^verbatim>\<open>p.valueDeclaration.questionToken\<close>, which \<open>processObjectType\<close> below guards.
\<close>

definition requiredProperties :: "symbol list \<Rightarrow> symbol list" where
  "requiredProperties props =
     filter (\<lambda>p. \<not> questionToken (the (valueDeclaration p))) props"

definition optionalProperties' :: "symbol list \<Rightarrow> symbol list" where
  "optionalProperties' props =
     filter (\<lambda>p. questionToken (the (valueDeclaration p))) props"

text \<open>
  The three functions of the source are mutually recursive. The handle is an option
  because the source passes \<^verbatim>\<open>getNumberIndexType()!\<close>, \<^verbatim>\<open>getStringIndexType()!\<close> and
  destructured alias arguments on, all of which can be \<^verbatim>\<open>undefined\<close> at run time. On
  \<^verbatim>\<open>undefined\<close> the fold raises a \<open>TypeError\<close>: \<^verbatim>\<open>type.isUnion()\<close> reads a property of
  it (the four predicates of \<^verbatim>\<open>./type\<close> that run before are taken not to accept
  \<^verbatim>\<open>undefined\<close>).

  \<^verbatim>\<open>const [key, value] = type.aliasTypeArguments!\<close> binds the first two entries of the
  array; an entry that is missing is \<^verbatim>\<open>undefined\<close>, and destructuring \<^verbatim>\<open>undefined\<close>
  itself is a \<open>TypeError\<close>. So is \<^verbatim>\<open>typeArguments!.map\<close> on \<^verbatim>\<open>undefined\<close>, which comes
  after the warning.

  In \<^verbatim>\<open>processObjectType\<close> both filters read
  \<^verbatim>\<open>p.valueDeclaration.questionToken\<close> of every property before the handler is called, so
  a property without declaration raises a \<open>TypeError\<close> there.
\<close>

lemma size_list_member: "x \<in> set xs \<Longrightarrow> f x \<le> size_list f xs"
  by (induction xs) auto

lemma size_ty_pos: "0 < size (t :: ty)"
  by (cases t) simp

lemma size_types: "x \<in> set (types t) \<Longrightarrow> size x < size t"
  by (cases t) (auto dest: size_list_member [where f = size])

lemma size_typeArguments:
  "typeArguments t = Some xs \<Longrightarrow> x \<in> set xs \<Longrightarrow> size x < size t"
  by (cases t) (auto dest: size_list_member [where f = size])

lemma size_aliasTypeArguments:
  "aliasTypeArguments t = Some xs \<Longrightarrow> x \<in> set xs \<Longrightarrow> size x < size t"
  by (cases t) (auto dest: size_list_member [where f = size])

lemma size_getNumberIndexType: "size_option size (getNumberIndexType t) \<le> size t"
  by (cases t) (auto split: option.splits)

lemma size_getStringIndexType: "size_option size (getStringIndexType t) \<le> size t"
  by (cases t) (auto split: option.splits)

lemma size_getPropertiesOfType: "p \<in> set (getPropertiesOfType t) \<Longrightarrow> size p < size t"
  by (cases t) (auto dest: size_list_member [where f = size])

lemma size_getTypeOfSymbolAtLocation: "size (getTypeOfSymbolAtLocation s) < size s"
  by (cases s) auto

function processType :: "'r TypeMap \<Rightarrow> ty option \<Rightarrow> 'r comp"
  and processObjectType :: "'r TypeMap \<Rightarrow> ty \<Rightarrow> 'r comp"
  and processProperty :: "'r TypeMap \<Rightarrow> symbol \<Rightarrow> 'r comp"
where
  "processType typemap None = throw TypeError"
| "processType typemap (Some type) =
    (if isLiteralType type then literal typemap (String (typeToString type))
     else if isPrimitiveType type then
       (if typeToString type = ''string'' then string typemap
        else if typeToString type = ''number'' then number typemap
        else if typeToString type = ''boolean'' then boolean typemap
        else if typeToString type = ''null'' then null typemap
        else if typeToString type = ''undefined'' then undefined' typemap
        else throw UnknownPrimitiveType)
     else if isBasicObjectType type then emptyObject typemap
     else if isRecordType type then
       (case aliasTypeArguments type of
          None \<Rightarrow> throw TypeError
        | Some targs \<Rightarrow>
            record' typemap
              \<lparr>key = processType typemap (case targs of [] \<Rightarrow> None | k # _ \<Rightarrow> Some k),
               value' = processType typemap
                 (case targs of [] \<Rightarrow> None | [_] \<Rightarrow> None | _ # v # _ \<Rightarrow> Some v)\<rparr>)
     else if isUnion type then
       union' typemap (map (\<lambda>t. processType typemap (Some t)) (types type))
     else if isIntersection type then
       intersection typemap (map (\<lambda>t. processType typemap (Some t)) (types type))
     else if isTupleType type then
       andThen
         (if hasRestElement type
          then console_warn ''Tuple rest elements are not currently supported''
          else succeed ())
         (\<lambda>_. case typeArguments type of
                None \<Rightarrow> throw TypeError
              | Some targs \<Rightarrow>
                  tuple typemap (map (\<lambda>t. processType typemap (Some t)) targs))
     else if isArrayType type then
       array typemap (processType typemap (getNumberIndexType type))
     else if isStringIndexedObjectType type then
       stringIndexObject typemap (processType typemap (getStringIndexType type))
     else if isNumberIndexedType type then
       numberIndexObject typemap (processType typemap (getStringIndexType type))
     else if isFunctionType type then
       function' typemap \<lparr>args = [], return = None\<rparr>
     else if isObjectType type then processObjectType typemap type
     else if isVoid type then void typemap
     else if isAnyOrUnknown type then unknown typemap
     else throw (UnknownTypeWithFlags (extractFlags (flags type))))"
| "processObjectType typemap type =
    (if \<exists>p \<in> set (getPropertiesOfType type). valueDeclaration p = None
     then throw TypeError
     else object typemap
       \<lparr>properties =
          map (\<lambda>p. (name p, processProperty typemap p))
            (requiredProperties (getPropertiesOfType type)),
        optionalProperties =
          map (\<lambda>p. (name p, processProperty typemap p))
            (optionalProperties' (getPropertiesOfType type))\<rparr>)"
| "processProperty typemap s =
    processType typemap (Some (getTypeOfSymbolAtLocation s))"
  by pat_completeness auto

text \<open>
  Handles are finite trees, so the fold ends on every handle, whatever the handlers do
  with their thunks: each call descends to a strictly smaller handle. A type that refers
  to itself, on which the source recurses for as long as the handlers call their thunks,
  is not a value of \<open>ty\<close>.
\<close>

termination processType
proof (relation "measure (\<lambda>x. case x of
      Inl (_, topt) \<Rightarrow> 2 * size_option size topt
    | Inr (Inl (_, t)) \<Rightarrow> 2 * size t + 1
    | Inr (Inr (_, s)) \<Rightarrow> 2 * size s + 1)", goal_cases)
  case 1
  show ?case by simp
next
  case (2 typemap type targs)
  then show ?case
    using size_aliasTypeArguments [of type targs] size_ty_pos [of type]
    by (cases targs) auto
next
  case (3 typemap type targs)
  then show ?case
    using size_aliasTypeArguments [of type targs] size_ty_pos [of type]
    by (auto split: list.splits)
next
  case (4 typemap type t)
  then show ?case using size_types [of t type] by simp
next
  case (5 typemap type t)
  then show ?case using size_types [of t type] by simp
next
  case (6 typemap type u targs t)
  then show ?case using size_typeArguments [of type targs t] by simp
next
  case (7 typemap type)
  then show ?case using size_getNumberIndexType [of type] by simp
next
  case (8 typemap type)
  then show ?case using size_getStringIndexType [of type] by simp
next
  case (9 typemap type)
  then show ?case using size_getStringIndexType [of type] by simp
next
  case (10 typemap type)
  then show ?case by simp
next
  case (11 typemap type p)
  then show ?case
    using size_getPropertiesOfType [of p type] by (simp add: requiredProperties_def)
next
  case (12 typemap type p)
  then show ?case
    using size_getPropertiesOfType [of p type] by (simp add: optionalProperties'_def)
next
  case (13 typemap s)
  then show ?case using size_getTypeOfSymbolAtLocation [of s] by simp
qed

subsection \<open>Configuration (\<^verbatim>\<open>src/config.ts\<close>)\<close>

definition DEFAULT_FILE_NAME :: string where
  "DEFAULT_FILE_NAME = ''maptype.ts''"

record TsToIoConfig =
  followImports :: bool
  includeHeader :: bool
  fileNames :: "string list"

definition defaultConfig :: TsToIoConfig where
  "defaultConfig = \<lparr>followImports = False, includeHeader = True, fileNames = []\<rparr>"

text \<open>The default of the third parameter of \<^verbatim>\<open>processTypes\<close>.\<close>

definition processTypesConfig :: TsToIoConfig where
  "processTypesConfig = defaultConfig\<lparr>fileNames := [DEFAULT_FILE_NAME]\<rparr>"

subsection \<open>Syntax nodes and the driver\<close>

text \<open>
  A node of the compiler's syntax tree, as far as \<^verbatim>\<open>visit\<close> and \<^verbatim>\<open>handleDeclaration\<close>
  consult it:
  \<^item> \<open>kind\<close>: what \<^verbatim>\<open>ts.isTypeAliasDeclaration\<close>, \<^verbatim>\<open>ts.isVariableStatement\<close>,
    \<^verbatim>\<open>ts.isInterfaceDeclaration\<close> and \<^verbatim>\<open>ts.isModuleDeclaration\<close> test;
  \<^item> \<open>fileName\<close>: \<^verbatim>\<open>node.getSourceFile().fileName\<close>;
  \<^item> \<open>children\<close>: the nodes \<^verbatim>\<open>ts.forEachChild\<close> passes to its callback, in order. For
    a source file these are its statements. For a module declaration
    (\<^verbatim>\<open>namespace N { ... }\<close>) these are its name and its body, and the body is a node of
    kind \<open>ModuleBlock\<close> whose own children are the statements between the braces;
  \<^item> \<open>symbolName\<close>: the name of the symbol that \<^verbatim>\<open>checker.getSymbolAtLocation\<close> returns
    for the declared name (of the first binding, for a variable statement), \<open>None\<close> when it
    returns \<^verbatim>\<open>undefined\<close>;
  \<^item> \<open>declaredType\<close>: the handle the checker gives for the declaration
    (\<^verbatim>\<open>getTypeAtLocation\<close>, or \<^verbatim>\<open>getTypeOfSymbolAtLocation\<close> for a variable statement).
\<close>

datatype syntaxKind =
    TypeAliasDeclaration
  | InterfaceDeclaration
  | VariableStatement
  | ModuleDeclaration
  | ModuleBlock
  | Identifier
  | OtherKind

datatype node = Node
  (kind: syntaxKind)
  (fileName: string)
  (children: "node list")
  (symbolName: "string option")
  (declaredType: ty)

text \<open>
  \<^verbatim>\<open>handleDeclaration\<close>: both branches read a property of \<^verbatim>\<open>symbol!\<close> before
  \<^verbatim>\<open>processType\<close> runs, so an unresolved symbol is a \<open>TypeError\<close>; the \<^verbatim>\<open>catch\<close> clause
  rethrows.
\<close>

definition handleDeclaration :: "'r TypeMap \<Rightarrow> node \<Rightarrow> (string \<times> 'r) comp" where
  "handleDeclaration typemap node =
     (case symbolName node of
        None \<Rightarrow> throw TypeError
      | Some n \<Rightarrow>
          andThen (processType typemap (Some (declaredType node)))
            (\<lambda>r. succeed (n, r)))"

text \<open>
  \<^verbatim>\<open>visit\<close> pushes onto the array \<^verbatim>\<open>result\<close>; here it returns the array after the push.
  \<open>forEachChild\<close> is \<^verbatim>\<open>ts.forEachChild(node, visit(typemap, checker, config, result))\<close> on
  the children of a node: the callback returns nothing, so every child is visited, in
  order, unless one throws.
\<close>

lemma size_children: "size_list size (children n) < size n"
  by (cases n) simp

function visit :: "'r TypeMap \<Rightarrow> TsToIoConfig \<Rightarrow> (string \<times> 'r) list \<Rightarrow> node
      \<Rightarrow> (string \<times> 'r) list comp"
  and forEachChild :: "'r TypeMap \<Rightarrow> TsToIoConfig \<Rightarrow> (string \<times> 'r) list \<Rightarrow> node list
      \<Rightarrow> (string \<times> 'r) list comp"
where
  "visit typemap config result node =
    (if \<not> followImports config \<and> fileName node \<notin> set (fileNames config)
     then succeed result
     else if kind node = TypeAliasDeclaration \<or> kind node = VariableStatement
           \<or> kind node = InterfaceDeclaration
     then andThen (handleDeclaration typemap node) (\<lambda>b. succeed (result @ [b]))
     else if kind node = ModuleDeclaration
     then forEachChild typemap config result (children node)
     else succeed result)"
| "forEachChild typemap config result [] = succeed result"
| "forEachChild typemap config result (child # rest) =
    andThen (visit typemap config result child)
      (\<lambda>result'. forEachChild typemap config result' rest)"
  by pat_completeness auto

termination visit
proof (relation "measure (\<lambda>x. case x of
      Inl (_, _, _, n) \<Rightarrow> 2 * size n
    | Inr (_, _, _, ns) \<Rightarrow> 2 * size_list size ns + 1)", goal_cases)
  case 1
  show ?case by simp
next
  case (2 typemap config result node)
  then show ?case using size_children [of node] by simp
next
  case (3 typemap config result child rest)
  then show ?case by simp
next
  case (4 typemap config result child rest result')
  then show ?case by simp
qed

text \<open>
  \<^verbatim>\<open>processTypes\<close>. Parsing and checking belong to the compiler; the entry point is
  modelled from the source file node that \<^verbatim>\<open>program.getSourceFile(DEFAULT_FILE_NAME)\<close>
  returns for the text.
\<close>

definition processTypes :: "'r TypeMap \<Rightarrow> node \<Rightarrow> TsToIoConfig \<Rightarrow> (string \<times> 'r) list comp" where
  "processTypes typemap sourceFile config =
     forEachChild typemap config [] (children sourceFile)"

subsection \<open>The handler set of the tests (\<^verbatim>\<open>src/index.spec.ts\<close>)\<close>

text \<open>
  The io-ts handler set of the test suite, on strings. \<^verbatim>\<open>a.map(f => f())\<close> calls the
  thunks from left to right; a template literal renders an array through
  \<^verbatim>\<open>Array.prototype.toString\<close>, which joins with a comma.
\<close>

fun join :: "string \<Rightarrow> string list \<Rightarrow> string" where
  "join sep [] = []"
| "join sep [x] = x"
| "join sep (x # y # ys) = x @ sep @ join sep (y # ys)"

fun callAll :: "'r thunk list \<Rightarrow> 'r list comp" where
  "callAll [] = succeed []"
| "callAll (f # fs) =
     andThen f (\<lambda>x. andThen (callAll fs) (\<lambda>xs. succeed (x # xs)))"

text \<open>\<^verbatim>\<open>ps.map(([k, f]) => `${String(k)}: ${f()}`)\<close>\<close>

fun renderEntries :: "(string \<times> string thunk) list \<Rightarrow> string list comp" where
  "renderEntries [] = succeed []"
| "renderEntries ((k, f) # ps) =
     andThen f (\<lambda>x. andThen (renderEntries ps) (\<lambda>xs. succeed ((k @ '': '' @ x) # xs)))"

fun showNat :: "nat \<Rightarrow> string" where
  "showNat n =
     (if n < 10 then [char_of (48 + n)]
      else showNat (n div 10) @ [char_of (48 + n mod 10)])"

definition toString :: "literalValue \<Rightarrow> string" where
  "toString val =
     (case val of
        String s \<Rightarrow> s
      | Boolean b \<Rightarrow> (if b then ''true'' else ''false'')
      | Number i \<Rightarrow> (if i < 0 then ''-'' @ showNat (nat (- i)) else showNat (nat i)))"

definition typeMap_object :: "string objectArg \<Rightarrow> string comp" where
  "typeMap_object a =
     (if properties a \<noteq> [] \<and> optionalProperties a \<noteq> [] then
        andThen (renderEntries (properties a)) (\<lambda>req.
        andThen (renderEntries (optionalProperties a)) (\<lambda>opt.
          succeed (''t.intersection([t.type({'' @ join '','' req @ ''}), t.partial({''
                   @ join '', '' opt @ ''})])'')))
      else if optionalProperties a = [] then
        andThen (renderEntries (properties a)) (\<lambda>req.
          succeed (''t.type({'' @ join '', '' req @ ''})''))
      else
        andThen (renderEntries (optionalProperties a)) (\<lambda>opt.
          succeed (''t.partial({'' @ join '', '' opt @ ''})'')))"

definition typeMap :: "string TypeMap" where
  "typeMap =
    \<lparr>literal = (\<lambda>val. succeed (''t.literal('' @ toString val @ '')'')),
     void = succeed ''t.void'',
     string = succeed ''t.string'',
     number = succeed ''t.number'',
     boolean = succeed ''t.boolean'',
     null = succeed ''t.null'',
     undefined' = succeed ''t.undefined'',
     any = succeed ''t.any'',
     unknown = succeed ''t.any'',
     emptyObject = succeed ''t.type({})'',
     stringIndexObject =
       (\<lambda>a. andThen a (\<lambda>x. succeed (''t.record(t.string, '' @ x @ '')''))),
     numberIndexObject =
       (\<lambda>a. andThen a (\<lambda>x. succeed (''t.record(t.number, '' @ x @ '')''))),
     object = typeMap_object,
     function' = (\<lambda>a. succeed ''t.Function''),
     record' =
       (\<lambda>a. andThen (key a) (\<lambda>k. andThen (value' a) (\<lambda>v.
          succeed (''t.record('' @ k @ '', '' @ v @ '')'')))),
     array = (\<lambda>a. andThen a (\<lambda>x. succeed (''t.array('' @ x @ '')''))),
     union' =
       (\<lambda>a. andThen (callAll a) (\<lambda>xs. succeed (''t.union(['' @ join '', '' xs @ ''])''))),
     intersection =
       (\<lambda>a. andThen (callAll a)
          (\<lambda>xs. succeed (''t.intersection(['' @ join '', '' xs @ ''])''))),
     tuple =
       (\<lambda>a. andThen (callAll a) (\<lambda>xs. succeed (''t.tuple(['' @ join '', '' xs @ ''])'')))\<rparr>"

subsection \<open>Sample handles\<close>

text \<open>
  Handles for the examples below. \<open>plainType\<close> answers no to every test; \<^verbatim>\<open>never\<close> is
  taken as such a type (its flag is \<^verbatim>\<open>TypeFlags.Never = 131072\<close>).
\<close>

definition plainType :: "string \<Rightarrow> nat \<Rightarrow> ty" where
  "plainType text fl =
     Type False False text False False None False False [] False False None False None
       False None False False False [] False False fl"

definition neverType :: ty where
  "neverType = plainType ''never'' 131072"

definition primitiveType :: "string \<Rightarrow> nat \<Rightarrow> ty" where
  "primitiveType text fl =
     Type False True text False False None False False [] False False None False None
       False None False False False [] False False fl"

definition stringType :: ty where
  "stringType = primitiveType ''string'' 4"

definition numberType :: ty where
  "numberType = primitiveType ''number'' 8"

definition literalType :: "string \<Rightarrow> nat \<Rightarrow> ty" where
  "literalType text fl =
     Type True False text False False None False False [] False False None False None
       False None False False False [] False False fl"

text \<open>
  The sample tuple handle passes the tuple test and the array test (it has a numeric
  index accessor, here reaching \<open>elem\<close>), the overlap that the order of the two tests
  settles.
\<close>

definition tupleType :: "string \<Rightarrow> bool \<Rightarrow> ty list \<Rightarrow> ty \<Rightarrow> ty" where
  "tupleType text rest targs elem =
     Type False False text False False None False False [] True rest (Some targs) True
       (Some elem) False None True False True [] False False 524288"

definition arrayType :: "string \<Rightarrow> ty \<Rightarrow> ty" where
  "arrayType text elem =
     Type False False text False False None False False [] False False (Some [elem]) True
       (Some elem) False None True False True [] False False 524288"

definition numberIndexedType :: "string \<Rightarrow> ty \<Rightarrow> ty" where
  "numberIndexedType text elem =
     Type False False text False False None False False [] False False None False
       (Some elem) False None True False True [] False False 524288"

definition functionType :: "string \<Rightarrow> ty" where
  "functionType text =
     Type False False text False False None False False [] False False None False None
       False None False True True [] False False 524288"

definition objectType :: "string \<Rightarrow> symbol list \<Rightarrow> ty" where
  "objectType text props =
     Type False False text False False None False False [] False False None False None
       False None False False True props False False 524288"

definition unionType :: "string \<Rightarrow> ty list \<Rightarrow> ty" where
  "unionType text members =
     Type False False text False False None True False members False False None False None
       False None False False False [] False False 1048576"

definition anyType :: ty where
  "anyType =
     Type False False ''any'' False False None False False [] False False None False None
       False None False False False [] False True 1"

definition unknownType :: ty where
  "unknownType =
     Type False False ''unknown'' False False None False False [] False False None False None
       False None False False False [] False True 2"

definition property :: "string \<Rightarrow> bool \<Rightarrow> ty \<Rightarrow> symbol" where
  "property n opt t = Symbol n (Some (Declaration opt)) t"

definition typeAlias :: "string \<Rightarrow> ty \<Rightarrow> node" where
  "typeAlias n t = Node TypeAliasDeclaration DEFAULT_FILE_NAME [] (Some n) t"

definition sourceFile :: "node list \<Rightarrow> node" where
  "sourceFile statements = Node OtherKind DEFAULT_FILE_NAME statements None (plainType [] 0)"

subsection \<open>The branch that a handle takes\<close>

text \<open>
  The tests of \<open>processType\<close>, in the order of the source: the first test that a handle
  passes decides the handler. \<open>NoBranch\<close> is the final \<^verbatim>\<open>throw\<close>.
\<close>

datatype branch =
    LiteralBranch | PrimitiveBranch | EmptyObjectBranch | RecordBranch | UnionBranch
  | IntersectionBranch | TupleBranch | ArrayBranch | StringIndexObjectBranch
  | NumberIndexObjectBranch | FunctionBranch | ObjectBranch | VoidBranch | UnknownBranch
  | NoBranch

definition branchOf :: "ty \<Rightarrow> branch" where
  "branchOf type =
    (if isLiteralType type then LiteralBranch
     else if isPrimitiveType type then PrimitiveBranch
     else if isBasicObjectType type then EmptyObjectBranch
     else if isRecordType type then RecordBranch
     else if isUnion type then UnionBranch
     else if isIntersection type then IntersectionBranch
     else if isTupleType type then TupleBranch
     else if isArrayType type then ArrayBranch
     else if isStringIndexedObjectType type then StringIndexObjectBranch
     else if isNumberIndexedType type then NumberIndexObjectBranch
     else if isFunctionType type then FunctionBranch
     else if isObjectType type then ObjectBranch
     else if isVoid type then VoidBranch
     else if isAnyOrUnknown type then UnknownBranch
     else NoBranch)"




subsection \<open>Predicates and inputs of the statements below\<close>

text \<open>A handle that fails every test of \<open>processType\<close>.\<close>

definition matchesNoCategory :: "ty \<Rightarrow> bool" where
  "matchesNoCategory t \<longleftrightarrow>
     \<not> isLiteralType t \<and> \<not> isPrimitiveType t \<and> \<not> isBasicObjectType t \<and> \<not> isRecordType t
   \<and> \<not> isUnion t \<and> \<not> isIntersection t \<and> \<not> isTupleType t \<and> \<not> isArrayType t
   \<and> \<not> isStringIndexedObjectType t \<and> \<not> isNumberIndexedType t \<and> \<not> isFunctionType t
   \<and> \<not> isObjectType t \<and> \<not> isVoid t \<and> \<not> isAnyOrUnknown t"

text \<open>The three kinds of node that \<open>visit\<close> hands to \<open>handleDeclaration\<close>.\<close>

definition isDeclaration :: "node \<Rightarrow> bool" where
  "isDeclaration n \<longleftrightarrow>
     kind n = TypeAliasDeclaration \<or> kind n = VariableStatement \<or> kind n = InterfaceDeclaration"

text \<open>
  The syntax tree of
  \<^verbatim>\<open>namespace N { type A = string }  type B = number\<close>:
  the module declaration has two children, the identifier \<^verbatim>\<open>N\<close> and the module block,
  and the alias \<^verbatim>\<open>A\<close> is a child of the block.
\<close>

definition namespaceSource :: node where
  "namespaceSource =
     sourceFile
       [Node ModuleDeclaration DEFAULT_FILE_NAME
          [Node Identifier DEFAULT_FILE_NAME [] (Some ''N'') (plainType ''typeof N'' 524288),
           Node ModuleBlock DEFAULT_FILE_NAME [typeAlias ''A'' stringType] None
             (plainType ''any'' 1)]
          (Some ''N'') (plainType ''typeof N'' 524288),
        typeAlias ''B'' numberType]"

text \<open>
  The handle of \<^verbatim>\<open>type T = [boolean, ...string[]]\<close> as \<open>processType\<close> reads it. Line 116
  reads \<^verbatim>\<open>hasRestElement\<close> from the type itself, a reference to the tuple target; the
  compiler keeps that property on \<^verbatim>\<open>type.target\<close>, so on the type it is \<^verbatim>\<open>undefined\<close> and
  the test is false. \<^verbatim>\<open>typeArguments\<close> holds the element types, the one of the rest
  element last.
\<close>

definition restTupleType :: ty where
  "restTupleType =
     tupleType ''[boolean, ...string[]]'' False [primitiveType ''boolean'' 16, stringType]
       stringType"

text \<open>
  The handle of \<^verbatim>\<open>type P = Partial<{ a: number }>\<close>: an object type whose property, made
  by the mapped type, has no value declaration.
\<close>

definition partialType :: ty where
  "partialType =
     objectType ''Partial<{ a: number; }>''
       [Symbol ''a'' None
          (unionType ''number | undefined'' [primitiveType ''undefined'' 32768, numberType])]"

text \<open>
  \<^verbatim>\<open>interface Test { foo: string, bar?: number }\<close> of the tests; under
  \<^verbatim>\<open>strictNullChecks\<close> the type of the optional property is \<^verbatim>\<open>number | undefined\<close>.
\<close>

definition testInterface :: ty where
  "testInterface =
     objectType ''Test''
       [property ''foo'' False stringType,
        property ''bar'' True
          (unionType ''number | undefined'' [primitiveType ''undefined'' 32768, numberType])]"

text \<open>
  The first test of \<^verbatim>\<open>src/index.spec.ts\<close>, without the alias \<^verbatim>\<open>L\<close>:
  \<^verbatim>\<open>type X = Record<string, {x: number, y: number }>\<close>, \<^verbatim>\<open>type Y = [boolean, boolean]\<close>,
  \<^verbatim>\<open>type Z = null | undefined\<close>, \<^verbatim>\<open>type B = 0| 1\<close>.
\<close>

definition recordType :: "string \<Rightarrow> ty \<Rightarrow> ty \<Rightarrow> ty" where
  "recordType text k v =
     Type False False text False True (Some [k, v]) False False [] False False None False None
       False None False False True [] False False 524288"

definition specSource :: node where
  "specSource =
     sourceFile
       [typeAlias ''X''
          (recordType ''Record<string, { x: number; y: number; }>'' stringType
             (objectType ''{ x: number; y: number; }''
                [property ''x'' False numberType, property ''y'' False numberType])),
        typeAlias ''Y''
          (tupleType ''[boolean, boolean]'' False
             [primitiveType ''boolean'' 16, primitiveType ''boolean'' 16]
             (primitiveType ''boolean'' 16)),
        typeAlias ''Z''
          (unionType ''null | undefined''
             [primitiveType ''undefined'' 32768, primitiveType ''null'' 65536]),
        typeAlias ''B'' (unionType ''0 | 1'' [literalType ''0'' 256, literalType ''1'' 256])]"

subsection \<open>Evaluating the fold\<close>

text \<open>
  The defining equation of \<open>processType\<close> mentions \<open>processType\<close> under a binder, so it is
  not a rewrite rule; the equation below fires on a constructor only.
\<close>

declare processType.simps(2) [simp del]
declare flagsFrom.simps [simp del]
declare processObjectType.simps [simp del]
declare processProperty.simps [simp del]
declare visit.simps [simp del]

lemmas processType_Some = processType.simps(2)

lemma map_weak_cong: "xs = ys \<Longrightarrow> map f xs = map f ys"
  by simp

lemmas monad_defs = succeed_def throw_def andThen_def console_warn_def

lemmas sample_defs = plainType_def neverType_def primitiveType_def stringType_def
  numberType_def literalType_def tupleType_def arrayType_def numberIndexedType_def
  functionType_def objectType_def unionType_def anyType_def unknownType_def property_def
  typeAlias_def sourceFile_def

text \<open>The model gives the bindings that the test expects.\<close>

lemma index_spec_ts_to_io:
  "processTypes typeMap specSource processTypesConfig [] =
     (Inr [(''X'', ''t.record(t.string, t.type({x: t.number, y: t.number}))''),
           (''Y'', ''t.tuple([t.boolean, t.boolean])''),
           (''Z'', ''t.union([t.undefined, t.null])''),
           (''B'', ''t.union([t.literal(0), t.literal(1)])'')], [])"
  by (simp add: specSource_def recordType_def processTypes_def visit.simps
      handleDeclaration_def processTypesConfig_def defaultConfig_def DEFAULT_FILE_NAME_def
      processType_Some processObjectType.simps processProperty.simps requiredProperties_def
      optionalProperties'_def typeMap_object_def toString_def sample_defs typeMap_def
      monad_defs cong: map_weak_cong)

section \<open>Precedence of the tests\<close>

text \<open>
  C1. A handle that passes both the tuple test and the array test, and none of the six
  tests that \<open>processType\<close> makes before them, is dispatched to the tuple handler: the
  handler receives one thunk per type argument, after the rest-element warning if the
  handle declares a rest element. The array handler is not the one called.
\<close>

theorem tuple_before_array:
  assumes "\<not> isLiteralType t" "\<not> isPrimitiveType t" "\<not> isBasicObjectType t"
    "\<not> isRecordType t" "\<not> isUnion t" "\<not> isIntersection t"
    and "isTupleType t" and "isArrayType t"
    and "typeArguments t = Some targs"
  shows "processType tm (Some t) c =
           tuple tm (map (\<lambda>a. processType tm (Some a)) targs)
             (if hasRestElement t
              then c @ [''Tuple rest elements are not currently supported''] else c)"
  using assms by (simp add: processType_Some [of tm t] monad_defs)

theorem tuple_before_array_witness:
  "isTupleType (tupleType ''[number, string]'' False [numberType, stringType] stringType)
   \<and> isArrayType (tupleType ''[number, string]'' False [numberType, stringType] stringType)
   \<and> processType typeMap
        (Some (tupleType ''[number, string]'' False [numberType, stringType] stringType)) []
      = (Inr ''t.tuple([t.number, t.string])'', [])"
  using tuple_before_array
    [of "tupleType ''[number, string]'' False [numberType, stringType] stringType"
        "[numberType, stringType]" typeMap "[]"]
  by (simp add: processType_Some sample_defs typeMap_def monad_defs cong: map_weak_cong)

text \<open>
  C7. A handle classified as callable (every earlier test of the chain fails, the function
  test succeeds) reaches the function handler with an empty argument list and no return
  thunk. The argument holds no thunk at all, so neither argument nor return types are
  folded.
\<close>

theorem function_handler_gets_nothing:
  assumes "\<not> isLiteralType t" "\<not> isPrimitiveType t" "\<not> isBasicObjectType t"
    "\<not> isRecordType t" "\<not> isUnion t" "\<not> isIntersection t" "\<not> isTupleType t"
    "\<not> isArrayType t" "\<not> isStringIndexedObjectType t" "\<not> isNumberIndexedType t"
    and "isFunctionType t"
  shows "processType tm (Some t) = function' tm \<lparr>args = [], return = None\<rparr>"
  using assms by (simp add: processType_Some [of tm t])

theorem function_handler_gets_nothing_witness:
  "isFunctionType (functionType ''(s: string, n: number) => boolean'')
   \<and> processType typeMap (Some (functionType ''(s: string, n: number) => boolean''))
       = function' typeMap \<lparr>args = [], return = None\<rparr>
   \<and> processType typeMap (Some (functionType ''(s: string, n: number) => boolean'')) []
       = (Inr ''t.Function'', [])"
  using function_handler_gets_nothing
    [of "functionType ''(s: string, n: number) => boolean''" typeMap]
  by (simp add: sample_defs typeMap_def monad_defs)

text \<open>
  C9. For a literal type the literal handler is applied to the text that
  \<^verbatim>\<open>checker.typeToString\<close> gives for the type: a string value, passed as it is and not as
  a thunk, also when the literal is a number or a boolean.
\<close>

theorem literal_handler_gets_text:
  assumes "isLiteralType t"
  shows "processType tm (Some t) = literal tm (String (typeToString t))"
  using assms by (simp add: processType_Some [of tm t])

theorem literal_handler_gets_text_witness:
  "isLiteralType (literalType ''1'' 256)
   \<and> processType typeMap (Some (literalType ''1'' 256)) = literal typeMap (String ''1'')
   \<and> processType typeMap (Some (literalType ''1'' 256)) [] = (Inr ''t.literal(1)'', [])"
  using literal_handler_gets_text [of "literalType ''1'' 256" typeMap]
  by (simp add: sample_defs typeMap_def monad_defs toString_def)

text \<open>
  C10. For a handle classified as number-indexed object (not an array), the thunk given
  to the \<^verbatim>\<open>numberIndexObject\<close> handler folds what \<^verbatim>\<open>getStringIndexType\<close> returns, whatever
  \<^verbatim>\<open>getNumberIndexType\<close> returns. When the type has no string index signature the thunk
  therefore runs the fold on \<^verbatim>\<open>undefined\<close>.
\<close>

theorem number_index_thunk_reads_string_index:
  assumes "\<not> isLiteralType t" "\<not> isPrimitiveType t" "\<not> isBasicObjectType t"
    "\<not> isRecordType t" "\<not> isUnion t" "\<not> isIntersection t" "\<not> isTupleType t"
    "\<not> isArrayType t" "\<not> isStringIndexedObjectType t"
    and "isNumberIndexedType t"
  shows "processType tm (Some t) =
           numberIndexObject tm (processType tm (getStringIndexType t))
         \<and> (getStringIndexType t = None \<longrightarrow>
              processType tm (Some t) = numberIndexObject tm (processType tm None))"
  using assms by (simp add: processType_Some [of tm t])

theorem number_index_thunk_reads_string_index_witness:
  "isNumberIndexedType (numberIndexedType ''{ [i: number]: string }'' stringType)
   \<and> getNumberIndexType (numberIndexedType ''{ [i: number]: string }'' stringType)
       = Some stringType
   \<and> getStringIndexType (numberIndexedType ''{ [i: number]: string }'' stringType) = None
   \<and> processType typeMap (Some (numberIndexedType ''{ [i: number]: string }'' stringType))
       = numberIndexObject typeMap (processType typeMap None)
   \<and> processType typeMap
        (Some (numberIndexedType ''{ [i: number]: string }'' stringType)) []
       = (Inl TypeError, [])"
  using number_index_thunk_reads_string_index
    [of "numberIndexedType ''{ [i: number]: string }'' stringType" typeMap]
  by (simp add: sample_defs typeMap_def monad_defs)

section \<open>The \<^verbatim>\<open>any\<close> handler\<close>

text \<open>
  No branch of the fold reads the field \<^verbatim>\<open>any\<close> of the handler set: replacing it changes
  nothing, at any depth.
\<close>

lemma processType_any_update:
  "processType (tm\<lparr>any := f\<rparr>) topt = processType tm topt"
proof (induction topt rule: measure_induct_rule [where f = "size_option size"])
  case (less topt)
  show ?case
  proof (cases topt)
    case None
    then show ?thesis by simp
  next
    case (Some type)
    have IH: "processType (tm\<lparr>any := f\<rparr>) y = processType tm y"
      if "size_option size y \<le> size type" for y
      using less [of y] that Some by simp
    have nested: "processType (tm\<lparr>any := f\<rparr>) (Some x) = processType tm (Some x)"
      if "size x < size type" for x
      using IH [of "Some x"] that by simp
    have props: "processProperty (tm\<lparr>any := f\<rparr>) p = processProperty tm p"
      if "p \<in> set (getPropertiesOfType type)" for p
      using nested [of "getTypeOfSymbolAtLocation p"] size_getPropertiesOfType [OF that]
        size_getTypeOfSymbolAtLocation [of p] by (simp add: processProperty.simps)
    have entries: "map (\<lambda>p. (name p, processProperty (tm\<lparr>any := f\<rparr>) p)) ps
        = map (\<lambda>p. (name p, processProperty tm p)) ps"
      if "set ps \<subseteq> set (getPropertiesOfType type)" for ps
      using that by (auto simp add: props)
    have obj: "processObjectType (tm\<lparr>any := f\<rparr>) type = processObjectType tm type"
      by (auto simp add: processObjectType.simps entries requiredProperties_def
          optionalProperties'_def)
    have un: "map (\<lambda>t. processType (tm\<lparr>any := f\<rparr>) (Some t)) (types type)
        = map (\<lambda>t. processType tm (Some t)) (types type)"
      by (simp add: nested size_types cong: map_cong)
    have tu: "map (\<lambda>t. processType (tm\<lparr>any := f\<rparr>) (Some t)) targs
        = map (\<lambda>t. processType tm (Some t)) targs" if "typeArguments type = Some targs" for targs
      using that by (simp add: nested size_typeArguments cong: map_cong)
    have al: "processType (tm\<lparr>any := f\<rparr>) (case targs of [] \<Rightarrow> None | k # _ \<Rightarrow> Some k)
        = processType tm (case targs of [] \<Rightarrow> None | k # _ \<Rightarrow> Some k)"
      "processType (tm\<lparr>any := f\<rparr>) (case targs of [] \<Rightarrow> None | [_] \<Rightarrow> None | _ # v # _ \<Rightarrow> Some v)
        = processType tm (case targs of [] \<Rightarrow> None | [_] \<Rightarrow> None | _ # v # _ \<Rightarrow> Some v)"
      if "aliasTypeArguments type = Some targs" for targs
      using that size_aliasTypeArguments [OF that]
      by (auto simp add: nested split: list.splits)
    have ix: "processType (tm\<lparr>any := f\<rparr>) (getNumberIndexType type)
        = processType tm (getNumberIndexType type)"
      "processType (tm\<lparr>any := f\<rparr>) (getStringIndexType type)
        = processType tm (getStringIndexType type)"
      by (simp_all add: IH size_getNumberIndexType size_getStringIndexType)
    show ?thesis
      unfolding Some processType_Some [of "tm\<lparr>any := f\<rparr>" type] processType_Some [of tm type]
      by (simp add: obj un tu al ix split: option.splits)
  qed
qed

lemma handleDeclaration_any_update:
  "handleDeclaration (tm\<lparr>any := f\<rparr>) n = handleDeclaration tm n"
  by (simp add: handleDeclaration_def processType_any_update cong: option.case_cong)

lemma visit_any_update:
  "visit (tm\<lparr>any := f\<rparr>) config result n = visit tm config result n"
  "forEachChild (tm\<lparr>any := f\<rparr>) config result ns = forEachChild tm config result ns"
proof (induction tm config result n and tm config result ns
    rule: visit_forEachChild.induct)
  case (1 typemap config result node)
  then show ?case
    by (simp add: visit.simps [of _ config result node] handleDeclaration_any_update)
next
  case (2 typemap config result)
  show ?case by simp
next
  case (3 typemap config result child rest)
  then show ?case by simp
qed

text \<open>
  C8. A handle that is \<^verbatim>\<open>any\<close> or \<^verbatim>\<open>unknown\<close> (the last test of the chain, every earlier
  one failing) reaches the \<^verbatim>\<open>unknown\<close> handler, with nothing that tells the two apart.
  The \<^verbatim>\<open>any\<close> handler is never called: the fold of any handle and the whole run are the
  same whatever that handler is.
\<close>

theorem any_and_unknown_reach_unknown_handler:
  assumes "\<not> isLiteralType t" "\<not> isPrimitiveType t" "\<not> isBasicObjectType t"
    "\<not> isRecordType t" "\<not> isUnion t" "\<not> isIntersection t" "\<not> isTupleType t"
    "\<not> isArrayType t" "\<not> isStringIndexedObjectType t" "\<not> isNumberIndexedType t"
    "\<not> isFunctionType t" "\<not> isObjectType t" "\<not> isVoid t"
    and "isAnyOrUnknown t"
  shows "processType tm (Some t) = unknown tm
         \<and> processType (tm\<lparr>any := f\<rparr>) topt = processType tm topt
         \<and> processTypes (tm\<lparr>any := f\<rparr>) source config = processTypes tm source config"
  using assms
  by (simp add: processType_Some [of tm t] processType_any_update processTypes_def
      visit_any_update)

theorem any_and_unknown_reach_unknown_handler_witness:
  "isAnyOrUnknown anyType
   \<and> processType typeMap (Some anyType) = unknown typeMap
   \<and> processType typeMap (Some anyType) [] = (Inr ''t.any'', [])
   \<and> processTypes (typeMap\<lparr>any := throw (HandlerError ''any handler'')\<rparr>)
        (sourceFile [typeAlias ''A'' anyType, typeAlias ''U'' unknownType]) processTypesConfig []
       = (Inr [(''A'', ''t.any''), (''U'', ''t.any'')], [])"
  using any_and_unknown_reach_unknown_handler
    [of anyType typeMap "throw (HandlerError ''any handler'')" "Some anyType"
        "sourceFile [typeAlias ''A'' anyType, typeAlias ''U'' unknownType]" processTypesConfig]
  by (simp add: processTypes_def visit.simps handleDeclaration_def processTypesConfig_def
      defaultConfig_def DEFAULT_FILE_NAME_def processType_Some sample_defs typeMap_def
      monad_defs cong: map_weak_cong)

section \<open>Flag decomposition\<close>

lemma flagsFrom_0 [simp]: "flagsFrom w 0 = []"
  by (subst flagsFrom.simps) simp

lemma flagsFrom_pos:
  "0 < n \<Longrightarrow> flagsFrom w n = flagsFrom (2 * w) (n div 2) @ (if odd n then [w] else [])"
  by (subst flagsFrom.simps) simp

lemma sum_list_flagsFrom: "sum_list (flagsFrom w n) = w * n"
proof (induction w n rule: flagsFrom.induct)
  case (1 w n)
  show ?case
  proof (cases "n = 0")
    case True
    then show ?thesis by simp
  next
    case False
    then have ih: "sum_list (flagsFrom (2 * w) (n div 2)) = 2 * w * (n div 2)"
      using 1 by simp
    have split: "n = 2 * (n div 2) + (if odd n then 1 else 0)"
      by presburger
    have "sum_list (flagsFrom w n) = 2 * w * (n div 2) + (if odd n then w else 0)"
      using False by (simp add: flagsFrom_pos ih)
    also have "\<dots> = w * (2 * (n div 2) + (if odd n then 1 else 0))"
      by (simp add: algebra_simps)
    also have "\<dots> = w * n"
      using split by simp
    finally show ?thesis .
  qed
qed


lemma flagsFrom_powers: "x \<in> set (flagsFrom w n) \<Longrightarrow> \<exists>k. x = w * 2 ^ k"
proof (induction w n arbitrary: x rule: flagsFrom.induct)
  case (1 w n)
  show ?case
  proof (cases "n = 0")
    case True
    with "1.prems" show ?thesis by simp
  next
    case False
    with "1.prems" have "x \<in> set (flagsFrom (2 * w) (n div 2)) \<or> x = w"
      by (auto simp add: flagsFrom_pos split: if_splits)
    then show ?thesis
    proof
      assume "x \<in> set (flagsFrom (2 * w) (n div 2))"
      with "1.IH" [OF False] obtain k where "x = 2 * w * 2 ^ k" by blast
      then have "x = w * 2 ^ Suc k" by simp
      then show ?thesis by (rule exI)
    next
      assume "x = w"
      then have "x = w * 2 ^ 0" by simp
      then show ?thesis by (rule exI)
    qed
  qed
qed

lemma flagsFrom_lower:
  assumes "x \<in> set (flagsFrom w n)"
  shows "w \<le> x"
proof -
  from flagsFrom_powers [OF assms] obtain k where "x = w * 2 ^ k" by (rule exE)
  then show ?thesis by simp
qed

lemma flagsFrom_descending: "0 < w \<Longrightarrow> sorted_wrt (>) (flagsFrom w n)"
proof (induction w n rule: flagsFrom.induct)
  case (1 w n)
  show ?case
  proof (cases "n = 0")
    case True
    then show ?thesis by simp
  next
    case False
    have ih: "sorted_wrt (>) (flagsFrom (2 * w) (n div 2))"
      using "1.IH" [OF False] "1.prems" by simp
    have above: "w < x" if "x \<in> set (flagsFrom (2 * w) (n div 2))" for x
      using flagsFrom_lower [OF that] "1.prems" by simp
    show ?thesis
      using False ih above by (simp add: flagsFrom_pos sorted_wrt_append)
  qed
qed

lemma extractFlags_sum: "sum_list (extractFlags n) = n"
  by (simp add: extractFlags_def sum_list_flagsFrom)

lemma extractFlags_powers: "x \<in> set (extractFlags n) \<Longrightarrow> \<exists>k. x = 2 ^ k"
  using flagsFrom_powers [of x 1 n] by (simp add: extractFlags_def)

lemma extractFlags_descending: "sorted_wrt (>) (extractFlags n)"
  by (simp add: extractFlags_def flagsFrom_descending)

lemma extractFlags_tests:
  "extractFlags 0 = []" "extractFlags 1 = [1]" "extractFlags 10 = [8, 2]"
  "extractFlags 100 = [64, 32, 4]" "extractFlags 67108864 = [67108864]"
  by (simp_all add: extractFlags_def flagsFrom_pos)

section \<open>Laziness\<close>














section \<open>Partition of the properties\<close>

text \<open>
  When every property of an object type has a declaration, the object handler receives
  the required and the optional properties, and the two lists partition the properties
  that the checker enumerates: their names together are the names of all properties, no
  property is in both lists, no name is in both lists when the property names are
  distinct, a property is in the optional list exactly when its declaration has a question
  token and in the required list otherwise, and both lists keep the order of the
  enumeration.
\<close>

lemma partition_of_declared_properties:
  assumes "\<forall>p \<in> set (getPropertiesOfType t). valueDeclaration p \<noteq> None"
  shows "processObjectType tm t =
           object tm
             \<lparr>properties =
                map (\<lambda>p. (name p, processProperty tm p))
                  (requiredProperties (getPropertiesOfType t)),
              optionalProperties =
                map (\<lambda>p. (name p, processProperty tm p))
                  (optionalProperties' (getPropertiesOfType t))\<rparr>
       \<and> set (map name (requiredProperties (getPropertiesOfType t)))
           \<union> set (map name (optionalProperties' (getPropertiesOfType t)))
           = set (map name (getPropertiesOfType t))
       \<and> set (requiredProperties (getPropertiesOfType t))
           \<inter> set (optionalProperties' (getPropertiesOfType t)) = {}
       \<and> (distinct (map name (getPropertiesOfType t)) \<longrightarrow>
            set (map name (requiredProperties (getPropertiesOfType t)))
            \<inter> set (map name (optionalProperties' (getPropertiesOfType t))) = {})
       \<and> (\<forall>p \<in> set (getPropertiesOfType t).
             (p \<in> set (optionalProperties' (getPropertiesOfType t)))
               = questionToken (the (valueDeclaration p))
           \<and> (p \<in> set (requiredProperties (getPropertiesOfType t)))
               = (\<not> questionToken (the (valueDeclaration p))))
       \<and> subseq (requiredProperties (getPropertiesOfType t)) (getPropertiesOfType t)
       \<and> subseq (optionalProperties' (getPropertiesOfType t)) (getPropertiesOfType t)"
proof -
  let ?ps = "getPropertiesOfType t"
  have call: "processObjectType tm t =
           object tm
             \<lparr>properties = map (\<lambda>p. (name p, processProperty tm p)) (requiredProperties ?ps),
              optionalProperties =
                map (\<lambda>p. (name p, processProperty tm p)) (optionalProperties' ?ps)\<rparr>"
  proof -
    from assms have "\<not> (\<exists>p \<in> set ?ps. valueDeclaration p = None)" by blast
    then show ?thesis by (simp only: processObjectType.simps [of tm t] if_False)
  qed
  have cover: "set (map name (requiredProperties ?ps)) \<union> set (map name (optionalProperties' ?ps))
      = set (map name ?ps)"
    by (auto simp add: requiredProperties_def optionalProperties'_def)
  have apart: "set (requiredProperties ?ps) \<inter> set (optionalProperties' ?ps) = {}"
    by (auto simp add: requiredProperties_def optionalProperties'_def)
  have keys: "set (map name (requiredProperties ?ps)) \<inter> set (map name (optionalProperties' ?ps)) = {}"
    if "distinct (map name ?ps)"
  proof -
    have "inj_on name (set ?ps)" using that by (simp add: distinct_map)
    then show ?thesis
      by (auto simp add: requiredProperties_def optionalProperties'_def dest: inj_onD)
  qed
  have iff: "\<forall>p \<in> set ?ps.
      (p \<in> set (optionalProperties' ?ps)) = questionToken (the (valueDeclaration p))
      \<and> (p \<in> set (requiredProperties ?ps)) = (\<not> questionToken (the (valueDeclaration p)))"
    by (simp add: requiredProperties_def optionalProperties'_def)
  have order: "subseq (requiredProperties ?ps) ?ps" "subseq (optionalProperties' ?ps) ?ps"
    by (simp_all add: requiredProperties_def optionalProperties'_def)
  from call cover apart keys iff order show ?thesis by blast
qed

lemma partition_of_declared_properties_example:
  "map valueDeclaration (getPropertiesOfType testInterface)
     = [Some (Declaration False), Some (Declaration True)]
   \<and> distinct (map name (getPropertiesOfType testInterface))
   \<and> map name (requiredProperties (getPropertiesOfType testInterface)) = [''foo'']
   \<and> map name (optionalProperties' (getPropertiesOfType testInterface)) = [''bar'']
   \<and> set (map name (requiredProperties (getPropertiesOfType testInterface)))
       \<inter> set (map name (optionalProperties' (getPropertiesOfType testInterface))) = {}
   \<and> processObjectType typeMap testInterface []
       = (Inr ''t.intersection([t.type({foo: t.string}), t.partial({bar: t.union([t.undefined, t.number])})])'',
          [])"
  using partition_of_declared_properties [of testInterface typeMap]
  by (simp add: testInterface_def processType_Some processProperty.simps
      requiredProperties_def optionalProperties'_def typeMap_object_def sample_defs
      typeMap_def monad_defs cong: map_weak_cong)

text \<open>
  C4. The partition is not reached for every object type. On
  \<^verbatim>\<open>Partial<{ a: number }>\<close> the property has no value declaration, the first filter reads
  \<^verbatim>\<open>questionToken\<close> of \<^verbatim>\<open>undefined\<close>, and the run ends with a \<open>TypeError\<close>: the object
  handler is never called, with no required and no optional list.
\<close>

theorem partition_throws_without_declaration:
  "branchOf partialType = ObjectBranch
   \<and> map valueDeclaration (getPropertiesOfType partialType) = [None]
   \<and> processObjectType typeMap partialType [] = (Inl TypeError, [])
   \<and> processTypes typeMap (sourceFile [typeAlias ''P'' partialType]) processTypesConfig []
       = (Inl TypeError, [])"
  by (simp add: partialType_def branchOf_def processTypes_def visit.simps
      handleDeclaration_def processTypesConfig_def defaultConfig_def DEFAULT_FILE_NAME_def
      processType_Some processObjectType.simps sample_defs monad_defs)

section \<open>Classification failure\<close>

lemma processType_matchesNoCategory:
  assumes "matchesNoCategory t"
  shows "processType tm (Some t) = throw (UnknownTypeWithFlags (extractFlags (flags t)))"
  using assms by (simp add: matchesNoCategory_def processType_Some [of tm t])

lemma andThen_throw [simp]: "andThen (throw e) f = throw e"
  by (simp add: andThen_def throw_def)

lemma andThen_succeed [simp]: "andThen (succeed x) f = f x"
  by (simp add: andThen_def succeed_def)

lemma andThen_assoc: "andThen (andThen m f) g = andThen m (\<lambda>x. andThen (f x) g)"
  by (auto simp add: andThen_def fun_eq_iff split: prod.splits sum.splits)

lemma forEachChild_append:
  "forEachChild tm config result (xs @ ys) =
     andThen (forEachChild tm config result xs) (\<lambda>r. forEachChild tm config r ys)"
  by (induction xs arbitrary: result) (simp_all add: andThen_assoc)

lemma visit_unclassified_declaration:
  assumes "followImports config \<or> fileName d \<in> set (fileNames config)"
    and "isDeclaration d" and "symbolName d = Some n"
    and "matchesNoCategory (declaredType d)"
  shows "visit tm config result d =
           throw (UnknownTypeWithFlags (extractFlags (flags (declaredType d))))"
  using assms
  by (auto simp add: visit.simps [of tm config result d] isDeclaration_def
      handleDeclaration_def processType_matchesNoCategory)

text \<open>
  C2. Let the statements before a declaration be visited without error, and let the
  declaration be visited (it passes the file filter and its symbol resolves) with a type
  handle that matches no category. Then \<open>processTypes\<close> ends with the error that carries
  \<open>extractFlags\<close> of the flags of that handle, and returns no bindings: neither for this
  declaration nor for those completed before it. The flags carried are powers of two, from
  the highest to the lowest, and their sum is the mask.
\<close>

theorem classification_failure_aborts_run:
  assumes "forEachChild tm config [] before c = (Inr bindings, c')"
    and "followImports config \<or> fileName d \<in> set (fileNames config)"
    and "isDeclaration d" and "symbolName d = Some n"
    and "matchesNoCategory (declaredType d)"
    and "children source = before @ d # after"
  shows "processTypes tm source config c =
           (Inl (UnknownTypeWithFlags (extractFlags (flags (declaredType d)))), c')
       \<and> sum_list (extractFlags (flags (declaredType d))) = flags (declaredType d)
       \<and> (\<forall>f \<in> set (extractFlags (flags (declaredType d))). \<exists>k. f = 2 ^ k)
       \<and> sorted_wrt (>) (extractFlags (flags (declaredType d)))"
proof -
  have "processTypes tm source config c =
      andThen (forEachChild tm config [] before)
        (\<lambda>r. forEachChild tm config r (d # after)) c"
    by (simp add: processTypes_def assms(6) forEachChild_append)
  also have "\<dots> = forEachChild tm config bindings (d # after) c'"
    using assms(1) by (simp add: andThen_def)
  also have "\<dots> = (Inl (UnknownTypeWithFlags (extractFlags (flags (declaredType d)))), c')"
    by (simp add: visit_unclassified_declaration [OF assms(2-5)]) (simp add: throw_def)
  finally show ?thesis
    by (simp add: extractFlags_sum extractFlags_descending extractFlags_powers)
qed

theorem classification_failure_aborts_run_witness:
  "forEachChild typeMap processTypesConfig [] [typeAlias ''A'' stringType] []
     = (Inr [(''A'', ''t.string'')], [])
   \<and> isDeclaration (typeAlias ''B'' neverType)
   \<and> symbolName (typeAlias ''B'' neverType) = Some ''B''
   \<and> matchesNoCategory (declaredType (typeAlias ''B'' neverType))
   \<and> processTypes typeMap
        (sourceFile [typeAlias ''A'' stringType, typeAlias ''B'' neverType,
                     typeAlias ''C'' numberType])
        processTypesConfig []
       = (Inl (UnknownTypeWithFlags [131072]), [])"
  using classification_failure_aborts_run
    [of typeMap processTypesConfig "[typeAlias ''A'' stringType]" "[]"
        "[(''A'', ''t.string'')]" "[]" "typeAlias ''B'' neverType" "''B''"
        "sourceFile [typeAlias ''A'' stringType, typeAlias ''B'' neverType,
                     typeAlias ''C'' numberType]"
        "[typeAlias ''C'' numberType]"]
  by (simp add: visit.simps handleDeclaration_def processTypesConfig_def defaultConfig_def
      DEFAULT_FILE_NAME_def processType_Some sample_defs typeMap_def monad_defs
      isDeclaration_def matchesNoCategory_def extractFlags_def flagsFrom_pos
      cong: map_weak_cong)

section \<open>Namespaces\<close>

text \<open>
  A node that is neither a declaration nor a module declaration ends the descent: the
  visitor returns at once, whatever the children of the node are.
\<close>

lemma visit_other_kind:
  assumes "\<not> isDeclaration n" and "kind n \<noteq> ModuleDeclaration"
  shows "visit tm config result n = succeed result"
  using assms by (simp add: visit.simps [of tm config result n] isDeclaration_def)

text \<open>
  C3. The visitor does call itself on the children of a module declaration, but the
  statements of a namespace are not among them: they are the children of the module
  block, on which the visitor returns at once. On
  \<^verbatim>\<open>namespace N { type A = string }  type B = number\<close> the run returns the binding of
  \<^verbatim>\<open>B\<close> only; the declaration \<^verbatim>\<open>A\<close> inside the namespace body is missing from the output.
\<close>

theorem namespace_body_is_not_visited:
  "processTypes typeMap namespaceSource processTypesConfig [] = (Inr [(''B'', ''t.number'')], [])"
  by (simp add: namespaceSource_def processTypes_def visit.simps handleDeclaration_def
      processTypesConfig_def defaultConfig_def DEFAULT_FILE_NAME_def processType_Some
      sample_defs typeMap_def monad_defs cong: map_weak_cong)

section \<open>Tuples with a rest element\<close>

text \<open>
  C5. On \<^verbatim>\<open>[boolean, ...string[]]\<close> the test of line 116 is false, so nothing is written
  to the console; the tuple handler receives one thunk per entry of \<^verbatim>\<open>typeArguments\<close>,
  the type of the rest element among them, and the run returns a tuple of two fixed
  elements.
\<close>

theorem rest_tuple_gets_no_warning:
  "branchOf restTupleType = TupleBranch
   \<and> hasRestElement restTupleType = False
   \<and> processType typeMap (Some restTupleType) [] = (Inr ''t.tuple([t.boolean, t.string])'', [])"
  by (simp add: restTupleType_def branchOf_def processType_Some sample_defs typeMap_def
      monad_defs cong: map_weak_cong)

end
